theory Spec2Isabelle
  imports Complex_Main
begin

section \<open>Python values\<close>

text \<open>
  A Python \<open>str\<close> is a sequence of Unicode code points, so a text is a list of
  code points. A Python \<open>float\<close> is modelled as an exact real number: the
  thresholds, sums and roundings below are those of the source, computed without
  binary rounding error. A keyword count (an \<open>int\<close> that is never negative) is a
  \<open>nat\<close>.
\<close>

type_synonym str = "nat list"

definition py_str :: "string \<Rightarrow> str" where
  "py_str s = map of_char s"

text \<open>
  The exceptions of \<open>sentiment_analyzer.py\<close>, one constructor per place that
  raises: the \<open>ValueError\<close> of \<open>analyze_text\<close>, the \<open>FileNotFoundError\<close> and the
  wrapping \<open>Exception\<close> of \<open>analyze_file\<close> (each with the text interpolated into its
  message), the \<open>ZeroDivisionError\<close> of a float division, and an exception that
  escapes the TextBlob library (with its message).
\<close>

datatype exn =
    ValueError str
  | FileNotFoundError str
  | WrappedException str
  | ZeroDivisionError
  | LibraryError str

definition bind_exn :: "exn + 'a \<Rightarrow> ('a \<Rightarrow> exn + 'b) \<Rightarrow> exn + 'b" where
  "bind_exn m f = (case m of Inl e \<Rightarrow> Inl e | Inr v \<Rightarrow> f v)"

text \<open>\<open>a / b\<close> on floats raises on a zero divisor.\<close>

definition py_truediv :: "real \<Rightarrow> real \<Rightarrow> exn + real" where
  "py_truediv a b = (if b = 0 then Inl ZeroDivisionError else Inr (a / b))"

text \<open>
  \<open>round(x, ndigits)\<close>: the nearest multiple of \<open>10 ^ -ndigits\<close>, a tie going to the
  even one.
\<close>

definition py_round :: "real \<Rightarrow> nat \<Rightarrow> real" where
  "py_round x ndigits =
     (let y = x * 10 ^ ndigits;
          f = \<lfloor>y\<rfloor>;
          d = y - of_int f;
          q = (if d < 1 / 2 then f
               else if 1 / 2 < d then f + 1
               else if even f then f else f + 1)
      in of_int q / 10 ^ ndigits)"

text \<open>
  \<open>str.isspace\<close> for one code point (the white space of the Unicode database), and
  \<open>str.strip()\<close>, which removes white space at both ends.
\<close>

definition isspace :: "nat \<Rightarrow> bool" where
  "isspace c =
     (c \<in> set [9, 10, 11, 12, 13, 28, 29, 30, 31, 32, 133, 160, 5760,
                8232, 8233, 8239, 8287, 12288]
      \<or> (8192 \<le> c \<and> c \<le> 8202))"

definition strip :: "str \<Rightarrow> str" where
  "strip s = rev (dropWhile isspace (rev (dropWhile isspace s)))"

text \<open>\<open>word in text\<close>: the word occurs as a contiguous run of the text.\<close>

fun startswith :: "str \<Rightarrow> str \<Rightarrow> bool" where
  "startswith s [] = True"
| "startswith [] (w # ws) = False"
| "startswith (c # cs) (w # ws) = (c = w \<and> startswith cs ws)"

fun py_in :: "str \<Rightarrow> str \<Rightarrow> bool" where
  "py_in word [] = (word = [])"
| "py_in word (c # cs) = (startswith (c # cs) word \<or> py_in word cs)"

section \<open>The analyzer\<close>

text \<open>
  What the analyzer takes from outside the repository: Python's \<open>str.lower\<close> (the
  Unicode case mapping) and \<open>TextBlob(text).sentiment\<close>, which gives the pair
  (polarity, subjectivity) or raises.
\<close>

record env =
  str_lower :: "str \<Rightarrow> str"
  TextBlob_sentiment :: "str \<Rightarrow> str + (real \<times> real)"

text \<open>The fields of a \<open>SentimentAnalyzer\<close>, and what \<open>__init__\<close> stores in them.\<close>

record analyzer =
  log_dir :: str
  positive_keywords :: "str list"
  negative_keywords :: "str list"

definition init :: "str \<Rightarrow> analyzer" where
  "init dir =
     \<lparr> log_dir = dir,
       positive_keywords =
         [py_str ''excelente'', py_str ''fant'' @ [225] @ py_str ''stico'',
          py_str ''incre'' @ [237] @ py_str ''ble'', py_str ''maravilloso'',
          py_str ''perfecto'', py_str ''genial'', py_str ''bueno'', py_str ''buena'',
          py_str ''amor'', py_str ''feliz'', py_str ''alegre'', py_str ''contento'',
          py_str ''satisfecho'', py_str ''encanta'', py_str ''gusta'',
          py_str ''hermoso'', py_str ''bella'', [233] @ py_str ''xito''],
       negative_keywords =
         [py_str ''terrible'', py_str ''horrible'', py_str ''malo'', py_str ''mala'',
          py_str ''p'' @ [233] @ py_str ''simo'', py_str ''odio'', py_str ''detesto'',
          py_str ''triste'', py_str ''enojado'', py_str ''molesto'',
          py_str ''frustrado'', py_str ''decepcionado'', py_str ''error'',
          py_str ''problema'', py_str ''falla'', py_str ''defecto'',
          py_str ''disgusto'', py_str ''desagradable''] \<rparr>"

text \<open>The result dictionary of \<open>analyze_text\<close>; \<open>analyze_file\<close> adds \<open>line_number\<close>.\<close>

record result =
  text' :: str
  polarity :: real
  subjectivity :: real
  sentiment :: str
  timestamp :: str
  line_number :: "nat option"

definition POSITIVO :: str where "POSITIVO = py_str ''POSITIVO''"
definition NEGATIVO :: str where "NEGATIVO = py_str ''NEGATIVO''"
definition NEUTRAL :: str where "NEUTRAL = py_str ''NEUTRAL''"

text \<open>\<open>sum(1 for word in keywords if word in text_lower)\<close>.\<close>

definition count_keywords :: "str list \<Rightarrow> str \<Rightarrow> nat" where
  "count_keywords keywords text_lower =
     length (filter (\<lambda>word. py_in word text_lower) keywords)"

definition adjust_polarity_with_keywords :: "analyzer \<Rightarrow> str \<Rightarrow> real \<Rightarrow> real" where
  "adjust_polarity_with_keywords self text_lower original_polarity =
     (let positive_count = count_keywords (positive_keywords self) text_lower;
          negative_count = count_keywords (negative_keywords self) text_lower;
          no_signal =
            (if \<bar>original_polarity\<bar> < 0.1 then
               (if negative_count < positive_count
                  then Some (0.3 + real positive_count * 0.1)
                else if positive_count < negative_count
                  then Some (- 0.3 - real negative_count * 0.1)
                else None)
             else None)
      in case no_signal of
           Some returned \<Rightarrow> returned
         | None \<Rightarrow>
             (if 0 < positive_count \<and> 0 < original_polarity
                then min 1.0 (original_polarity + real positive_count * 0.2)
              else if 0 < negative_count \<and> original_polarity < 0
                then max (- 1.0) (original_polarity - real negative_count * 0.2)
              else original_polarity))"

definition classify_sentiment :: "real \<Rightarrow> str" where
  "classify_sentiment p =
     (if 0.05 < p then POSITIVO
      else if p < - 0.05 then NEGATIVO
      else NEUTRAL)"

definition get_polarity_description :: "real \<Rightarrow> str" where
  "get_polarity_description p =
     (let abs_polarity = \<bar>p\<bar>;
          intensity =
            (if 0.7 \<le> abs_polarity then Some (py_str ''Muy'')
             else if 0.3 \<le> abs_polarity then Some (py_str ''Moderadamente'')
             else if 0.05 \<le> abs_polarity then Some (py_str ''Ligeramente'')
             else None)
      in case intensity of
           None \<Rightarrow> py_str ''Neutral''
         | Some i \<Rightarrow>
             (let sentiment_type = (if 0 < p then py_str ''positivo'' else py_str ''negativo'')
              in i @ py_str '' '' @ sentiment_type))"

text \<open>
  \<open>analyze_text\<close>. The argument \<open>now\<close> is the time stamp that
  \<open>datetime.datetime.now().strftime(...)\<close> gives during the call.
\<close>

definition empty_text_message :: str where
  "empty_text_message = py_str ''El texto no puede estar vac'' @ [237] @ py_str ''o''"

definition analyze_text :: "analyzer \<Rightarrow> env \<Rightarrow> str \<Rightarrow> str \<Rightarrow> exn + result" where
  "analyze_text self e now txt =
     (if txt = [] \<or> strip txt = [] then Inl (ValueError empty_text_message)
      else
        (case TextBlob_sentiment e txt of
           Inl msg \<Rightarrow> Inl (LibraryError msg)
         | Inr (blob_polarity, blob_subjectivity) \<Rightarrow>
             (let adjusted_polarity =
                    adjust_polarity_with_keywords self (str_lower e txt) blob_polarity;
                  sentiment_label = classify_sentiment adjusted_polarity
              in Inr \<lparr> text' = strip txt,
                       polarity = py_round adjusted_polarity 3,
                       subjectivity = py_round blob_subjectivity 3,
                       sentiment = sentiment_label,
                       timestamp = now,
                       line_number = None \<rparr>)))"

section \<open>Batch analysis\<close>

text \<open>
  A file, as \<open>analyze_file\<close> reads it: the lines that iterating over it yields, and
  the message of the exception that opening or reading it raises after them, if any.
  The file system maps a path to the file there; \<open>None\<close> is a path that does not
  exist.
\<close>

datatype text_file = TextFile "str list" "str option"

text \<open>
  A line that \<open>analyze_file\<close> prints: \<open>Error analizando l\<dots>nea {line_num}: {e}\<close>,
  kept as the line number and the exception.
\<close>

datatype printed = ErrorLine nat exn

text \<open>
  The loop over \<open>enumerate(file, 1)\<close>, with the list \<open>results\<close> and the printed
  lines as its state. \<open>clock n\<close> is the time stamp read while line \<open>n\<close> is analysed.
\<close>

fun analyze_lines ::
  "analyzer \<Rightarrow> env \<Rightarrow> (nat \<Rightarrow> str) \<Rightarrow> nat \<Rightarrow> str list \<Rightarrow>
   result list \<times> printed list \<Rightarrow> result list \<times> printed list" where
  "analyze_lines self e clock line_num [] state = state"
| "analyze_lines self e clock line_num (raw # rest) (results, out) =
     (let line = strip raw in
      if line = [] then analyze_lines self e clock (line_num + 1) rest (results, out)
      else
        (case analyze_text self e (clock line_num) line of
           Inr result \<Rightarrow>
             analyze_lines self e clock (line_num + 1) rest
               (results @ [result\<lparr>line_number := Some line_num\<rparr>], out)
         | Inl err \<Rightarrow>
             analyze_lines self e clock (line_num + 1) rest
               (results, out @ [ErrorLine line_num err])))"

definition analyze_file ::
  "analyzer \<Rightarrow> env \<Rightarrow> (nat \<Rightarrow> str) \<Rightarrow> (str \<Rightarrow> text_file option) \<Rightarrow> str \<Rightarrow>
   printed list \<times> (exn + result list)" where
  "analyze_file self e clock fs file_path =
     (case fs file_path of
        None \<Rightarrow> ([], Inl (FileNotFoundError file_path))
      | Some (TextFile lines failure) \<Rightarrow>
          (case analyze_lines self e clock 1 lines ([], []) of
             (results, out) \<Rightarrow>
               (case failure of
                  Some msg \<Rightarrow> (out, Inl (WrappedException msg))
                | None \<Rightarrow> (out, Inr results))))"

section \<open>Summary\<close>

text \<open>The summary dictionary; the empty dictionary \<open>{}\<close> is \<open>None\<close>.\<close>

record summary =
  total_texts :: nat
  positive_count :: nat
  negative_count :: nat
  neutral_count :: nat
  positive_percentage :: real
  negative_percentage :: real
  neutral_percentage :: real
  average_polarity :: real
  average_subjectivity :: real

definition get_analysis_summary :: "result list \<Rightarrow> exn + summary option" where
  "get_analysis_summary results =
     (if results = [] then Inr None
      else
        (let total = length results;
             positive = length (filter (\<lambda>r. sentiment r = POSITIVO) results);
             negative = length (filter (\<lambda>r. sentiment r = NEGATIVO) results);
             neutral = length (filter (\<lambda>r. sentiment r = NEUTRAL) results)
         in bind_exn (py_truediv (sum_list (map polarity results)) (real total))
              (\<lambda>avg_polarity.
            bind_exn (py_truediv (sum_list (map subjectivity results)) (real total))
              (\<lambda>avg_subjectivity.
            bind_exn (py_truediv (real positive) (real total)) (\<lambda>positive_share.
            bind_exn (py_truediv (real negative) (real total)) (\<lambda>negative_share.
            bind_exn (py_truediv (real neutral) (real total)) (\<lambda>neutral_share.
              Inr (Some
                \<lparr> total_texts = total,
                  positive_count = positive,
                  negative_count = negative,
                  neutral_count = neutral,
                  positive_percentage = py_round (positive_share * 100) 1,
                  negative_percentage = py_round (negative_share * 100) 1,
                  neutral_percentage = py_round (neutral_share * 100) 1,
                  average_polarity = py_round avg_polarity 3,
                  average_subjectivity = py_round avg_subjectivity 3 \<rparr>))))))))"

section \<open>Sample inputs\<close>

text \<open>
  Concrete inputs for the examples below: the analyzer that \<open>SentimentAnalyzer()\<close>
  builds; an environment whose scorer answers every text with the same pair, and one
  whose scorer raises on one given text (both lower-case a text that has no capital
  letter, by leaving it as it is); a file of four lines, two of them blank; a result
  with a given label; a text with eight positive keywords and none negative, and one
  with one keyword of each kind.
\<close>

definition sample_analyzer :: analyzer where
  "sample_analyzer = init (py_str ''logs'')"

definition constant_scorer :: "real \<Rightarrow> real \<Rightarrow> env" where
  "constant_scorer p s = \<lparr> str_lower = (\<lambda>t. t), TextBlob_sentiment = (\<lambda>t. Inr (p, s)) \<rparr>"

definition failing_scorer :: "str \<Rightarrow> env" where
  "failing_scorer bad =
     \<lparr> str_lower = (\<lambda>t. t),
       TextBlob_sentiment = (\<lambda>t. if t = bad then Inl (py_str ''boom'') else Inr (0, 0)) \<rparr>"

definition sample_lines :: "str list" where
  "sample_lines = [py_str ''bueno'' @ [10], [10], py_str ''  '' @ [10], py_str ''malo'']"

definition sample_fs :: "str \<Rightarrow> text_file option" where
  "sample_fs path =
     (if path = py_str ''in.txt'' then Some (TextFile sample_lines None) else None)"


definition eight_keywords :: str where
  "eight_keywords =
     py_str ''excelente maravilloso perfecto bueno buena feliz alegre contento''"

definition tie_text :: str where
  "tie_text = py_str ''bueno malo''"

section \<open>Facts about the Python values\<close>

lemma strip_strip: "strip (strip s) = strip s"
proof -
  define t where "t = dropWhile isspace s"
  define u where "u = rev (dropWhile isspace (rev t))"
  have "rev t = takeWhile isspace (rev t) @ rev u"
    unfolding u_def by simp
  then have "rev (rev t) = rev (takeWhile isspace (rev t) @ rev u)"
    by (rule arg_cong)
  then have t_eq: "t = u @ rev (takeWhile isspace (rev t))"
    by simp
  have "dropWhile isspace u = u"
  proof (cases u)
    case Nil
    then show ?thesis by simp
  next
    case (Cons a v)
    with t_eq obtain w where "t = a # w"
      by (metis append_Cons)
    then have "t \<noteq> []" and "hd t = a" by simp_all
    then have "\<not> isspace a"
      unfolding t_def using hd_dropWhile[of isspace s] by simp
    with Cons show ?thesis by simp
  qed
  moreover have "dropWhile isspace (rev u) = rev u"
    unfolding u_def by simp
  ultimately have "rev (dropWhile isspace (rev (dropWhile isspace u))) = u"
    by simp
  then show ?thesis
    unfolding strip_def t_def [symmetric] u_def [symmetric] .
qed

lemma strip_Nil: "strip [] = []"
  by (simp add: strip_def)



text \<open>
  Rounding never crosses a multiple of \<open>10 ^ -n\<close>: a value above (below) such a
  multiple rounds to at least (at most) that multiple.
\<close>

lemma py_round_int_bounds:
  fixes k :: int
  shows "of_int k < x * 10 ^ n \<Longrightarrow> of_int k / 10 ^ n \<le> py_round x n"
    and "x * 10 ^ n < of_int k \<Longrightarrow> py_round x n \<le> of_int k / 10 ^ n"
    and "x * 10 ^ n \<le> of_int k \<Longrightarrow> py_round x n \<le> of_int k / 10 ^ n"
    and "of_int k \<le> x * 10 ^ n \<Longrightarrow> of_int k / 10 ^ n \<le> py_round x n"
proof -
  define y where "y = x * 10 ^ n"
  define f where "f = \<lfloor>y\<rfloor>"
  define q where "q = (if y - of_int f < 1 / 2 then f
               else if 1 / 2 < y - of_int f then f + 1
               else if even f then f else f + 1)"
  have r: "py_round x n = of_int q / 10 ^ n"
    by (simp add: py_round_def Let_def q_def f_def y_def)
  have lo: "of_int k \<le> y \<Longrightarrow> k \<le> q" for k
  proof -
    assume "of_int k \<le> y"
    then have "k \<le> f" unfolding f_def by (simp add: le_floor_iff)
    then show "k \<le> q" unfolding q_def by auto
  qed
  have hi: "y \<le> of_int k \<Longrightarrow> q \<le> k" for k
  proof -
    assume a: "y \<le> of_int k"
    have "f \<le> k" using a unfolding f_def by (simp add: floor_le_iff) 
    show "q \<le> k"
    proof (cases "f = k")
      case True
      then have "y = of_int f" using a unfolding f_def by (metis of_int_floor_le antisym)
      then show ?thesis unfolding q_def using True by simp
    next
      case False
      with \<open>f \<le> k\<close> have "f + 1 \<le> k" by simp
      then show ?thesis unfolding q_def by auto
    qed
  qed
  have mono: "a \<le> b \<Longrightarrow> real_of_int a / 10 ^ n \<le> real_of_int b / 10 ^ n" for a b
    by (simp add: divide_right_mono)
  show "of_int k < x * 10 ^ n \<Longrightarrow> of_int k / 10 ^ n \<le> py_round x n"
    using lo[of k] mono[of k q] by (simp add: r y_def)
  show "x * 10 ^ n < of_int k \<Longrightarrow> py_round x n \<le> of_int k / 10 ^ n"
    using hi[of k] mono[of q k] by (simp add: r y_def)
  show "x * 10 ^ n \<le> of_int k \<Longrightarrow> py_round x n \<le> of_int k / 10 ^ n"
    using hi[of k] mono[of q k] by (simp add: r y_def)
  show "of_int k \<le> x * 10 ^ n \<Longrightarrow> of_int k / 10 ^ n \<le> py_round x n"
    using lo[of k] mono[of k q] by (simp add: r y_def)
qed

lemma round3_pos: "0.05 < p \<Longrightarrow> 0.05 \<le> py_round p 3"
  using py_round_int_bounds(1)[of 50 p 3] by simp

lemma round3_neg: "p < - 0.05 \<Longrightarrow> py_round p 3 \<le> - 0.05"
  using py_round_int_bounds(2)[of p 3 "-50"] by simp

lemma round3_mid: "- 0.05 \<le> p \<Longrightarrow> p \<le> 0.05 \<Longrightarrow> - 0.05 \<le> py_round p 3 \<and> py_round p 3 \<le> 0.05"
  using py_round_int_bounds(3)[of p 3 "50"] py_round_int_bounds(4)[of "-50" p 3] by simp

lemma labels_distinct: "POSITIVO \<noteq> NEGATIVO" "POSITIVO \<noteq> NEUTRAL" "NEGATIVO \<noteq> NEUTRAL"
  by (simp_all add: POSITIVO_def NEGATIVO_def NEUTRAL_def py_str_def)

lemma classify_round3:
  assumes "py_round p 3 \<noteq> 0.05" "py_round p 3 \<noteq> - 0.05"
  shows "classify_sentiment (py_round p 3) = classify_sentiment p"
  using assms round3_pos[of p] round3_neg[of p] round3_mid[of p]
  unfolding classify_sentiment_def
  by (cases "0.05 < p"; cases "p < - 0.05") auto

lemma strip_eq_Nil_iff: "strip s = [] \<longleftrightarrow> list_all isspace s"
proof
  assume "strip s = []"
  then have a: "\<forall>x\<in>set (dropWhile isspace s). isspace x"
    by (simp add: strip_def dropWhile_eq_Nil_conv)
  have "dropWhile isspace s = []"
  proof (rule ccontr)
    assume ne: "dropWhile isspace s \<noteq> []"
    then have "\<not> isspace (hd (dropWhile isspace s))"
      by (rule hd_dropWhile)
    moreover have "hd (dropWhile isspace s) \<in> set (dropWhile isspace s)"
      using ne by simp
    ultimately show False
      using a by blast
  qed
  then show "list_all isspace s"
    by (simp add: dropWhile_eq_Nil_conv list_all_iff)
next
  assume "list_all isspace s"
  then have e: "dropWhile isspace s = []"
    by (simp add: dropWhile_eq_Nil_conv list_all_iff)
  show "strip s = []"
    unfolding strip_def e by simp
qed

section \<open>The keyword adjustment\<close>

lemma count8: "count_keywords (positive_keywords sample_analyzer) eight_keywords = 8"
  "count_keywords (negative_keywords sample_analyzer) eight_keywords = 0"
  by (simp_all add: count_keywords_def sample_analyzer_def init_def eight_keywords_def py_str_def)

text \<open>
  C1. The claim is that the adjusted polarity of \<open>analyze_text\<close> stays within
  \<open>[-1, 1]\<close> in every branch, the "no signal" branch included. The source clamps
  only the two amplifying branches (\<open>min(1.0, ...)\<close>, \<open>max(-1.0, ...)\<close>); the
  "no signal" branch returns \<open>0.3 + positive_count * 0.1\<close> as it is. On a text
  with eight positive keywords and a base polarity of 0 the stored polarity is 1.1.
\<close>

theorem no_signal_branch_unclamped:
  "analyze_text sample_analyzer (constant_scorer 0 0) [] eight_keywords =
     Inr \<lparr> text' = eight_keywords, polarity = 1.1, subjectivity = 0,
           sentiment = POSITIVO, timestamp = [], line_number = None \<rparr>"
proof -
  have adj: "adjust_polarity_with_keywords sample_analyzer eight_keywords 0 = 1.1"
    by (simp add: adjust_polarity_with_keywords_def count8 Let_def)
  have st: "strip eight_keywords = eight_keywords"
    by (simp add: strip_def isspace_def eight_keywords_def py_str_def)
  have ne: "eight_keywords \<noteq> []"
    by (simp add: eight_keywords_def py_str_def)
  have rd: "py_round 1.1 3 = 1.1" "py_round 0 3 = 0"
    by (simp_all add: py_round_def Let_def)
  have cl: "classify_sentiment 1.1 = POSITIVO"
    by (simp add: classify_sentiment_def)
  show ?thesis
    by (simp add: analyze_text_def constant_scorer_def adj st ne rd cl)
qed

text \<open>
  The two amplifying branches are clamped: a base polarity in \<open>[-1, 1]\<close> whose
  magnitude is at least 0.1 stays in \<open>[-1, 1]\<close>, whatever the keyword counts.
\<close>

theorem amplification_stays_in_range:
  assumes "0.1 \<le> \<bar>original_polarity\<bar>"
    and "- 1 \<le> original_polarity" and "original_polarity \<le> 1"
  shows "- 1 \<le> adjust_polarity_with_keywords self text_lower original_polarity \<and>
         adjust_polarity_with_keywords self text_lower original_polarity \<le> 1"
  using assms by (auto simp: adjust_polarity_with_keywords_def Let_def)

theorem amplification_stays_in_range_witness:
  "adjust_polarity_with_keywords sample_analyzer eight_keywords 0.5 = 1 \<and>
   - 1 \<le> adjust_polarity_with_keywords sample_analyzer eight_keywords 0.5 \<and>
   adjust_polarity_with_keywords sample_analyzer eight_keywords 0.5 \<le> 1"
proof -
  have "adjust_polarity_with_keywords sample_analyzer eight_keywords 0.5 = 1"
    by (simp add: adjust_polarity_with_keywords_def count8 Let_def)
  then show ?thesis
    using amplification_stays_in_range
      [where original_polarity = "0.5" and self = sample_analyzer
         and text_lower = eight_keywords]
    by simp
qed

lemma count_tie: "count_keywords (positive_keywords sample_analyzer) tie_text = 1"
  "count_keywords (negative_keywords sample_analyzer) tie_text = 1"
  by (simp_all add: count_keywords_def sample_analyzer_def init_def tie_text_def py_str_def)

text \<open>
  C2. The claim is that with \<open>abs(original_polarity) < 0.1\<close> and as many positive
  as negative keywords the base polarity comes back unchanged. In the source a tie
  leaves the "no signal" block without returning and goes on to the amplification:
  with one keyword of each kind the base polarity 0.05 becomes 0.25.
\<close>

theorem tie_amplified_counterexample:
  "\<bar>0.05 :: real\<bar> < 0.1 \<and>
   count_keywords (positive_keywords sample_analyzer) tie_text =
   count_keywords (negative_keywords sample_analyzer) tie_text \<and>
   adjust_polarity_with_keywords sample_analyzer tie_text 0.05 = 0.25 \<and>
   (0.25 :: real) \<noteq> 0.05"
  by (simp add: adjust_polarity_with_keywords_def count_tie Let_def)

text \<open>
  C2, as the source has it: with \<open>abs(original_polarity) < 0.1\<close> and both counts
  equal to \<open>c\<close>, the result is the base polarity when \<open>c = 0\<close> or the base polarity
  is 0; otherwise a positive base polarity is amplified to
  \<open>min(1.0, original_polarity + c * 0.2)\<close> and a negative one to
  \<open>max(-1.0, original_polarity - c * 0.2)\<close>.
\<close>

theorem tie_falls_through_to_amplification:
  assumes "\<bar>original_polarity\<bar> < 0.1"
    and "count_keywords (positive_keywords self) text_lower = c"
    and "count_keywords (negative_keywords self) text_lower = c"
  shows "adjust_polarity_with_keywords self text_lower original_polarity =
           (if c = 0 \<or> original_polarity = 0 then original_polarity
            else if 0 < original_polarity then min 1.0 (original_polarity + real c * 0.2)
            else max (- 1.0) (original_polarity - real c * 0.2))"
  using assms by (auto simp: adjust_polarity_with_keywords_def Let_def)

text \<open>
  The tie of \<open>tie_text\<close> at the base polarities 0.05, -0.05 and 0, and a text
  without keywords.
\<close>

theorem tie_falls_through_to_amplification_witness:
  "adjust_polarity_with_keywords sample_analyzer tie_text 0.05 = 0.25 \<and>
   adjust_polarity_with_keywords sample_analyzer tie_text (- 0.05) = - 0.25 \<and>
   adjust_polarity_with_keywords sample_analyzer tie_text 0 = 0 \<and>
   adjust_polarity_with_keywords sample_analyzer (py_str ''ok'') 0.05 = 0.05"
proof -
  have ok: "count_keywords (positive_keywords sample_analyzer) (py_str ''ok'') = 0"
    "count_keywords (negative_keywords sample_analyzer) (py_str ''ok'') = 0"
    by (simp_all add: count_keywords_def sample_analyzer_def init_def py_str_def)
  show ?thesis
    using tie_falls_through_to_amplification
        [where original_polarity = "0.05" and self = sample_analyzer
           and text_lower = tie_text and c = 1]
      tie_falls_through_to_amplification
        [where original_polarity = "- 0.05" and self = sample_analyzer
           and text_lower = tie_text and c = 1]
      tie_falls_through_to_amplification
        [where original_polarity = 0 and self = sample_analyzer
           and text_lower = tie_text and c = 1]
      tie_falls_through_to_amplification
        [where original_polarity = "0.05" and self = sample_analyzer
           and text_lower = "py_str ''ok''" and c = 0]
    by (simp add: count_tie ok)
qed

section \<open>Classification\<close>

text \<open>
  C4. \<open>_classify_sentiment\<close> gives POSITIVO above 0.05, NEGATIVO below -0.05 and
  NEUTRAL for every other polarity, the two boundary values 0.05 and -0.05 included;
  the three labels are different strings.
\<close>

theorem classify_sentiment_thresholds:
  "(0.05 < p \<longrightarrow> classify_sentiment p = POSITIVO) \<and>
   (p < - 0.05 \<longrightarrow> classify_sentiment p = NEGATIVO) \<and>
   (- 0.05 \<le> p \<and> p \<le> 0.05 \<longrightarrow> classify_sentiment p = NEUTRAL) \<and>
   classify_sentiment 0.05 = NEUTRAL \<and> classify_sentiment (- 0.05) = NEUTRAL \<and>
   POSITIVO \<noteq> NEGATIVO \<and> POSITIVO \<noteq> NEUTRAL \<and> NEGATIVO \<noteq> NEUTRAL"
  using labels_distinct by (simp add: classify_sentiment_def)

text \<open>One polarity in each of the three ranges.\<close>

theorem classify_sentiment_thresholds_witness:
  "classify_sentiment 0.5 = POSITIVO \<and> classify_sentiment (- 0.5) = NEGATIVO \<and>
   classify_sentiment 0.01 = NEUTRAL"
  using classify_sentiment_thresholds [of "0.5"] classify_sentiment_thresholds [of "- 0.5"]
    classify_sentiment_thresholds [of "0.01"]
  by simp

text \<open>
  C10. At the boundary polarities 0.05 and -0.05 the label is NEUTRAL while
  \<open>get_polarity_description\<close> answers "Ligeramente positivo" and "Ligeramente
  negativo", which are not "Neutral"; \<open>analyze_text\<close> returns such a result when
  the adjusted polarity is 0.05.
\<close>

theorem neutral_label_with_slight_description:
  "classify_sentiment 0.05 = NEUTRAL \<and>
   get_polarity_description 0.05 = py_str ''Ligeramente positivo'' \<and>
   classify_sentiment (- 0.05) = NEUTRAL \<and>
   get_polarity_description (- 0.05) = py_str ''Ligeramente negativo'' \<and>
   py_str ''Ligeramente positivo'' \<noteq> py_str ''Neutral'' \<and>
   py_str ''Ligeramente negativo'' \<noteq> py_str ''Neutral'' \<and>
   map_sum id (\<lambda>r. (sentiment r, get_polarity_description (polarity r)))
     (analyze_text sample_analyzer (constant_scorer 0.05 0) [] (py_str ''ok''))
   = Inr (NEUTRAL, py_str ''Ligeramente positivo'')"
proof -
  have cnt: "count_keywords (positive_keywords sample_analyzer) (py_str ''ok'') = 0"
    "count_keywords (negative_keywords sample_analyzer) (py_str ''ok'') = 0"
    by (simp_all add: count_keywords_def sample_analyzer_def init_def py_str_def)
  have adj: "adjust_polarity_with_keywords sample_analyzer (py_str ''ok'') (1 / 20) = 1 / 20"
    by (simp add: adjust_polarity_with_keywords_def cnt Let_def)
  have st: "strip (py_str ''ok'') = py_str ''ok''" "py_str ''ok'' \<noteq> []"
    by (simp_all add: strip_def isspace_def py_str_def)
  have rd: "py_round (1 / 20) 3 = 1 / 20"
    by (simp add: py_round_def Let_def)
  have cl: "classify_sentiment (1 / 20) = NEUTRAL" "classify_sentiment (- (1 / 20)) = NEUTRAL"
    by (simp_all add: classify_sentiment_def)
  have d1: "get_polarity_description (1 / 20) = py_str ''Ligeramente positivo''"
    by (simp add: get_polarity_description_def py_str_def Let_def)
  have d2: "get_polarity_description (- (1 / 20)) = py_str ''Ligeramente negativo''"
    by (simp add: get_polarity_description_def py_str_def Let_def)
  have ne: "py_str ''Ligeramente positivo'' \<noteq> py_str ''Neutral''"
    "py_str ''Ligeramente negativo'' \<noteq> py_str ''Neutral''"
    by (simp_all add: py_str_def)
  have run: "analyze_text sample_analyzer (constant_scorer (1 / 20) 0) [] (py_str ''ok'') =
      Inr \<lparr> text' = py_str ''ok'', polarity = 1 / 20, subjectivity = py_round 0 3,
            sentiment = NEUTRAL, timestamp = [], line_number = None \<rparr>"
    by (simp add: analyze_text_def constant_scorer_def adj st rd cl Let_def)
  show ?thesis
    by (simp add: run cl d1 d2 ne)
qed

text \<open>
  C3. The claim is that classifying the stored (rounded) polarity gives the stored
  sentiment. \<open>analyze_text\<close> classifies \<open>adjusted_polarity\<close> and stores
  \<open>round(adjusted_polarity, 3)\<close>: an adjusted polarity of 0.0502 is POSITIVO, and
  is stored as 0.05, which classifies as NEUTRAL.
\<close>

theorem rounded_polarity_reclassified_counterexample:
  "analyze_text sample_analyzer (constant_scorer 0.0502 0) [] (py_str ''ok'') =
     Inr \<lparr> text' = py_str ''ok'', polarity = 0.05, subjectivity = 0,
           sentiment = POSITIVO, timestamp = [], line_number = None \<rparr> \<and>
   classify_sentiment 0.05 = NEUTRAL \<and> NEUTRAL \<noteq> POSITIVO"
proof -
  have cnt: "count_keywords (positive_keywords sample_analyzer) (py_str ''ok'') = 0"
    "count_keywords (negative_keywords sample_analyzer) (py_str ''ok'') = 0"
    by (simp_all add: count_keywords_def sample_analyzer_def init_def py_str_def)
  have adj: "adjust_polarity_with_keywords sample_analyzer (py_str ''ok'') p = p" for p
    by (simp add: adjust_polarity_with_keywords_def cnt Let_def)
  have st: "strip (py_str ''ok'') = py_str ''ok''" "py_str ''ok'' \<noteq> []"
    by (simp_all add: strip_def isspace_def py_str_def)
  have rd: "py_round 0.0502 3 = 0.05" "py_round 0 3 = 0"
    by (simp_all add: py_round_def Let_def)
  have cl: "classify_sentiment 0.0502 = POSITIVO" "classify_sentiment 0.05 = NEUTRAL"
    by (simp_all add: classify_sentiment_def)
  have "analyze_text sample_analyzer (constant_scorer 0.0502 0) [] (py_str ''ok'') =
     Inr \<lparr> text' = py_str ''ok'', polarity = py_round 0.0502 3, subjectivity = py_round 0 3,
           sentiment = classify_sentiment 0.0502, timestamp = [], line_number = None \<rparr>"
    unfolding analyze_text_def constant_scorer_def Let_def
    using st by (simp add: adj)
  then show ?thesis
    unfolding rd cl using labels_distinct by simp
qed

text \<open>
  C3, as the source has it: the sentiment of a result is the classification of the
  adjusted polarity before rounding, the stored polarity is that value rounded to 3
  decimals, and classifying the stored polarity gives the stored sentiment whenever
  the stored polarity is neither 0.05 nor -0.05.
\<close>

theorem sentiment_classifies_unrounded_polarity:
  assumes "analyze_text self e now txt = Inr r"
  shows "\<exists>p s. TextBlob_sentiment e txt = Inr (p, s) \<and>
           sentiment r = classify_sentiment (adjust_polarity_with_keywords self (str_lower e txt) p) \<and>
           polarity r = py_round (adjust_polarity_with_keywords self (str_lower e txt) p) 3 \<and>
           (polarity r \<noteq> 0.05 \<and> polarity r \<noteq> - 0.05 \<longrightarrow>
              classify_sentiment (polarity r) = sentiment r)"
  using assms classify_round3
  by (auto simp: analyze_text_def Let_def split: if_splits sum.splits)

text \<open>
  A text without keywords and the base polarity 0.5.
\<close>

theorem sentiment_classifies_unrounded_polarity_witness:
  "\<exists>r. analyze_text sample_analyzer (constant_scorer 0.5 0) [] (py_str ''ok'') = Inr r \<and>
        polarity r = 0.5 \<and> sentiment r = POSITIVO \<and>
        classify_sentiment (polarity r) = sentiment r"
proof -
  have cnt: "count_keywords (positive_keywords sample_analyzer) (py_str ''ok'') = 0"
    "count_keywords (negative_keywords sample_analyzer) (py_str ''ok'') = 0"
    by (simp_all add: count_keywords_def sample_analyzer_def init_def py_str_def)
  have adj: "adjust_polarity_with_keywords sample_analyzer (py_str ''ok'') p = p" for p
    by (simp add: adjust_polarity_with_keywords_def cnt Let_def)
  have st: "strip (py_str ''ok'') = py_str ''ok''" "py_str ''ok'' \<noteq> []"
    by (simp_all add: strip_def isspace_def py_str_def)
  have rd: "py_round (1 / 2) 3 = 1 / 2" "py_round 0 3 = 0"
    by (simp_all add: py_round_def Let_def)
  have cl: "classify_sentiment (1 / 2) = POSITIVO"
    by (simp add: classify_sentiment_def)
  have run: "analyze_text sample_analyzer (constant_scorer 0.5 0) [] (py_str ''ok'') =
     Inr \<lparr> text' = py_str ''ok'', polarity = 1 / 2, subjectivity = 0,
           sentiment = POSITIVO, timestamp = [], line_number = None \<rparr>"
    unfolding analyze_text_def constant_scorer_def Let_def
    using st by (simp add: adj rd cl)
  from sentiment_classifies_unrounded_polarity [OF run] show ?thesis
    unfolding run by auto
qed

section \<open>The empty-text error\<close>

text \<open>
  C5. \<open>analyze_text\<close> raises its \<open>ValueError\<close> exactly when the text is empty
  after \<open>strip()\<close>, that is when every code point of it is white space (the empty
  text included); in that case no result is produced, and on every other text the
  error is not raised. (The spec names the error \<open>EmptyInputError\<close>.)
\<close>

theorem analyze_text_ValueError_iff:
  "((\<exists>m. analyze_text self e now txt = Inl (ValueError m)) \<longleftrightarrow> strip txt = []) \<and>
   (strip txt = [] \<longleftrightarrow> list_all isspace txt) \<and>
   (analyze_text self e now txt = Inl (ValueError empty_text_message) \<longleftrightarrow> strip txt = [])"
  by (auto simp: analyze_text_def strip_eq_Nil_iff Let_def split: sum.splits)

text \<open>
  A text of blanks, a tab and a newline, the empty text, and a text with a word.
\<close>

theorem analyze_text_ValueError_iff_witness:
  "analyze_text sample_analyzer (constant_scorer 0 0) [] (py_str ''  '' @ [9, 10]) =
     Inl (ValueError empty_text_message) \<and>
   analyze_text sample_analyzer (constant_scorer 0 0) [] [] = Inl (ValueError empty_text_message) \<and>
   analyze_text sample_analyzer (constant_scorer 0 0) [] (py_str '' ok '') \<noteq>
     Inl (ValueError empty_text_message)"
  using analyze_text_ValueError_iff
      [of sample_analyzer "constant_scorer 0 0" "[]" "py_str ''  '' @ [9, 10]"]
    analyze_text_ValueError_iff [of sample_analyzer "constant_scorer 0 0" "[]" "[]"]
    analyze_text_ValueError_iff [of sample_analyzer "constant_scorer 0 0" "[]" "py_str '' ok ''"]
  by (simp add: strip_def isspace_def py_str_def)

section \<open>The batch\<close>

text \<open>
  On a line that is not blank, \<open>analyze_text\<close> gets the stripped line: it raises
  only what the scorer raises. The loop returns one result for each line that is not
  blank and is scored, and prints one line for each that is not scored.
\<close>

lemma analyze_text_stripped:
  assumes "strip l \<noteq> []"
  shows "analyze_text self e now (strip l) =
           (case TextBlob_sentiment e (strip l) of
              Inl msg \<Rightarrow> Inl (LibraryError msg)
            | Inr (p, s) \<Rightarrow>
                Inr \<lparr> text' = strip l,
                      polarity = py_round (adjust_polarity_with_keywords self (str_lower e (strip l)) p) 3,
                      subjectivity = py_round s 3,
                      sentiment = classify_sentiment
                        (adjust_polarity_with_keywords self (str_lower e (strip l)) p),
                      timestamp = now, line_number = None \<rparr>)"
  using assms by (simp add: analyze_text_def strip_strip Let_def split: sum.splits)

lemma analyze_lines_eq:
  "analyze_lines self e clock k ls (rs, out) =
     (rs @ concat (map (\<lambda>(n, l).
               case analyze_text self e (clock n) (strip l) of
                 Inr r \<Rightarrow> [r\<lparr>line_number := Some n\<rparr>]
               | Inl err \<Rightarrow> [])
             (filter (\<lambda>(n, l). strip l \<noteq> []) (enumerate k ls))),
      out @ concat (map (\<lambda>(n, l).
               case analyze_text self e (clock n) (strip l) of
                 Inr r \<Rightarrow> []
               | Inl err \<Rightarrow> [ErrorLine n err])
             (filter (\<lambda>(n, l). strip l \<noteq> []) (enumerate k ls))))"
  by (induction ls arbitrary: k rs out) (auto simp: Let_def split: sum.splits)

lemma analyze_lines_all_scored:
  assumes "\<forall>l\<in>set ls. strip l \<noteq> [] \<longrightarrow> (\<exists>v. TextBlob_sentiment e (strip l) = Inr v)"
  shows "\<exists>new. analyze_lines self e clock k ls (rs, out) = (rs @ new, out) \<and>
           map (\<lambda>r. (line_number r, text' r)) new =
             map (\<lambda>(n, l). (Some n, strip l))
               (filter (\<lambda>(n, l). strip l \<noteq> []) (enumerate k ls))"
  using assms
proof (induction ls arbitrary: k rs)
  case Nil
  then show ?case by simp
next
  case (Cons raw rest)
  show ?case
  proof (cases "strip raw = []")
    case True
    with Cons.IH [of "k + 1" rs] Cons.prems show ?thesis
      by (auto simp: Let_def)
  next
    case False
    with Cons.prems obtain p s where ps: "TextBlob_sentiment e (strip raw) = Inr (p, s)"
      by fastforce
    obtain r where r: "analyze_text self e (clock k) (strip raw) = Inr r"
      and tr: "text' r = strip raw"
      using analyze_text_stripped [OF False, of self e "clock k"] ps by simp
    from Cons.IH [of "k + 1" "rs @ [r\<lparr>line_number := Some k\<rparr>]"] Cons.prems
    obtain new where new:
      "analyze_lines self e clock (k + 1) rest (rs @ [r\<lparr>line_number := Some k\<rparr>], out) =
         ((rs @ [r\<lparr>line_number := Some k\<rparr>]) @ new, out)"
      "map (\<lambda>r. (line_number r, text' r)) new =
         map (\<lambda>(n, l). (Some n, strip l))
           (filter (\<lambda>(n, l). strip l \<noteq> []) (enumerate (k + 1) rest))"
      by auto
    show ?thesis
      apply (rule exI [of _ "r\<lparr>line_number := Some k\<rparr> # new"])
      using False r tr new by (simp add: Let_def)
  qed
qed

lemma length_filter_enumerate:
  "length (filter (\<lambda>(n, l). P l) (enumerate k ls)) = length (filter P ls)"
  by (induction ls arbitrary: k) auto

lemma sample_lines_stripped:
  "strip (py_str ''bueno'' @ [10]) = py_str ''bueno''" "strip [10] = []"
  "strip (py_str ''  '' @ [10]) = []" "strip (py_str ''malo'') = py_str ''malo''"
  "py_str ''bueno'' \<noteq> []" "py_str ''malo'' \<noteq> []" "py_str ''malo'' \<noteq> py_str ''bueno''"
  "py_str ''bueno'' \<noteq> py_str ''malo''"
  by (simp_all add: strip_def isspace_def py_str_def)

lemma sample_lines_enumerated:
  "enumerate 1 sample_lines =
     [(1, py_str ''bueno'' @ [10]), (2, [10]), (3, py_str ''  '' @ [10]), (4, py_str ''malo'')]"
  by (simp add: sample_lines_def enumerate_eq_zip upt_rec)

text \<open>
  C6. For a readable file of N lines of which K are blank after \<open>strip()\<close>, when
  the scorer succeeds on every line that is not blank, \<open>analyze_file\<close> prints
  nothing and returns N - K results, in the order of the input: the results are, one
  for one, the lines that are not blank, each with its position in
  \<open>enumerate(file, 1)\<close> (the blank lines counted) as \<open>line_number\<close> and the stripped
  line as \<open>text\<close>.
\<close>

theorem analyze_file_numbers_nonblank_lines:
  assumes "fs file_path = Some (TextFile lines None)"
    and "\<forall>l\<in>set lines. strip l \<noteq> [] \<longrightarrow> (\<exists>v. TextBlob_sentiment e (strip l) = Inr v)"
  shows "\<exists>results. analyze_file self e clock fs file_path = ([], Inr results) \<and>
           length results = length lines - length (filter (\<lambda>l. strip l = []) lines) \<and>
           map (\<lambda>r. (line_number r, text' r)) results =
             map (\<lambda>(n, l). (Some n, strip l))
               (filter (\<lambda>(n, l). strip l \<noteq> []) (enumerate 1 lines)) \<and>
           (\<forall>j<length results. \<exists>i<length lines.
              line_number (results ! j) = Some (i + 1) \<and>
              text' (results ! j) = strip (lines ! i) \<and> strip (lines ! i) \<noteq> [])"
proof -
  let ?F = "filter (\<lambda>(n, l). strip l \<noteq> []) (enumerate 1 lines)"
  from analyze_lines_all_scored [OF assms(2), of self clock 1 "[]" "[]"]
  obtain results where run: "analyze_lines self e clock 1 lines ([], []) = (results, [])"
    and m: "map (\<lambda>r. (line_number r, text' r)) results = map (\<lambda>(n, l). (Some n, strip l)) ?F"
    by auto
  have whole: "analyze_file self e clock fs file_path = ([], Inr results)"
    using run by (simp add: analyze_file_def assms(1))
  have "length results = length ?F"
    using arg_cong [OF m, of length] by simp
  also have "\<dots> = length (filter (\<lambda>l. strip l \<noteq> []) lines)"
    by (rule length_filter_enumerate)
  finally have len: "length results = length (filter (\<lambda>l. strip l \<noteq> []) lines)" .
  have "length (filter (\<lambda>l. strip l \<noteq> []) lines) + length (filter (\<lambda>l. strip l = []) lines)
          = length lines"
    using sum_length_filter_compl [of "\<lambda>l. strip l \<noteq> []" lines] by simp
  with len have count: "length results = length lines - length (filter (\<lambda>l. strip l = []) lines)"
    by simp
  have pos: "\<exists>i<length lines. line_number (results ! j) = Some (i + 1) \<and>
      text' (results ! j) = strip (lines ! i) \<and> strip (lines ! i) \<noteq> []"
    if j: "j < length results" for j
  proof -
    have jF: "j < length ?F"
      using j arg_cong [OF m, of length] by simp
    obtain n l where nl: "?F ! j = (n, l)"
      by (cases "?F ! j")
    have "(n, l) \<in> set ?F"
      using nth_mem [OF jF] nl by simp
    then have mem: "(n, l) \<in> set (enumerate 1 lines)" and nb: "strip l \<noteq> []"
      by auto
    from mem have n: "1 \<le> n" "n < 1 + length lines" "lines ! (n - 1) = l"
      by (auto simp: in_set_enumerate_eq)
    have "map (\<lambda>r. (line_number r, text' r)) results ! j = map (\<lambda>(n, l). (Some n, strip l)) ?F ! j"
      using m by simp
    then have "line_number (results ! j) = Some n" "text' (results ! j) = strip l"
      using j jF nl by simp_all
    with n nb show ?thesis
      by (intro exI [of _ "n - 1"]) auto
  qed
  show ?thesis
    using whole count m pos by blast
qed

text \<open>
  The sample file: four lines, the second and third blank.
\<close>

theorem analyze_file_numbers_nonblank_lines_witness:
  "\<exists>results. analyze_file sample_analyzer (constant_scorer 0 0) (\<lambda>n. []) sample_fs (py_str ''in.txt'')
       = ([], Inr results) \<and>
     length results = 2 \<and>
     map (\<lambda>r. (line_number r, text' r)) results =
       [(Some 1, py_str ''bueno''), (Some 4, py_str ''malo'')]"
proof -
  have fs: "sample_fs (py_str ''in.txt'') = Some (TextFile sample_lines None)"
    by (simp add: sample_fs_def)
  have sc: "\<forall>l\<in>set sample_lines. strip l \<noteq> [] \<longrightarrow>
      (\<exists>v. TextBlob_sentiment (constant_scorer 0 0) (strip l) = Inr v)"
    by (simp add: constant_scorer_def)
  have len: "length sample_lines = 4"
    "filter (\<lambda>l. strip l = []) sample_lines = [[10], py_str ''  '' @ [10]]"
    by (simp_all add: sample_lines_def sample_lines_stripped)
  from analyze_file_numbers_nonblank_lines
    [where fs = sample_fs and file_path = "py_str ''in.txt''" and lines = sample_lines
       and e = "constant_scorer 0 0" and self = sample_analyzer and clock = "\<lambda>n. []",
     OF fs sc]
  obtain results where
    "analyze_file sample_analyzer (constant_scorer 0 0) (\<lambda>n. []) sample_fs (py_str ''in.txt'')
       = ([], Inr results)"
    "length results = length sample_lines - length (filter (\<lambda>l. strip l = []) sample_lines)"
    "map (\<lambda>r. (line_number r, text' r)) results =
       map (\<lambda>(n, l). (Some n, strip l))
         (filter (\<lambda>(n, l). strip l \<noteq> []) (enumerate 1 sample_lines))"
    by blast
  then show ?thesis
    unfolding sample_lines_enumerated
    by (simp add: len sample_lines_stripped)
qed

text \<open>
  C7. For a readable file and any scorer, whatever lines it fails on,
  \<open>analyze_file\<close> returns a list of results and never an exception: going through
  the lines that are not blank in order, each line that \<open>analyze_text\<close> scores gives
  its result (with its line number), each line on which it raises gives a printed
  error line (with its line number and the exception) and no result, and every such
  line gives one or the other.
\<close>

theorem analyze_file_continues_after_failed_line:
  assumes "fs file_path = Some (TextFile lines None)"
  shows "\<exists>out results.
           analyze_file self e clock fs file_path = (out, Inr results) \<and>
           results =
             concat (map (\<lambda>(n, l).
                 case analyze_text self e (clock n) (strip l) of
                   Inr r \<Rightarrow> [r\<lparr>line_number := Some n\<rparr>]
                 | Inl err \<Rightarrow> [])
               (filter (\<lambda>(n, l). strip l \<noteq> []) (enumerate 1 lines))) \<and>
           out =
             concat (map (\<lambda>(n, l).
                 case analyze_text self e (clock n) (strip l) of
                   Inr r \<Rightarrow> []
                 | Inl err \<Rightarrow> [ErrorLine n err])
               (filter (\<lambda>(n, l). strip l \<noteq> []) (enumerate 1 lines))) \<and>
           length results + length out = length (filter (\<lambda>l. strip l \<noteq> []) lines)"
proof -
  let ?F = "filter (\<lambda>(n, l). strip l \<noteq> []) (enumerate 1 lines)"
  let ?ok = "\<lambda>(n, l). case analyze_text self e (clock n) (strip l) of
                 Inr r \<Rightarrow> [r\<lparr>line_number := Some n\<rparr>] | Inl err \<Rightarrow> []"
  let ?bad = "\<lambda>(n, l). case analyze_text self e (clock n) (strip l) of
                 Inr r \<Rightarrow> [] | Inl err \<Rightarrow> [ErrorLine n err]"
  have whole: "analyze_file self e clock fs file_path =
      (concat (map ?bad ?F), Inr (concat (map ?ok ?F)))"
    by (simp add: analyze_file_def assms analyze_lines_eq)
  have one: "length (concat (map ?ok xs)) + length (concat (map ?bad xs)) = length xs" for xs
    by (induction xs) (auto split: sum.splits)
  have "length (concat (map ?ok ?F)) + length (concat (map ?bad ?F)) =
      length (filter (\<lambda>l. strip l \<noteq> []) lines)"
    using one [of ?F] length_filter_enumerate [of "\<lambda>l. strip l \<noteq> []" 1 lines] by simp
  with whole show ?thesis
    by blast
qed

text \<open>
  The sample file with a scorer that raises on the fourth line.
\<close>

theorem analyze_file_continues_after_failed_line_witness:
  "\<exists>r. analyze_file sample_analyzer (failing_scorer (py_str ''malo'')) (\<lambda>n. []) sample_fs
         (py_str ''in.txt'')
       = ([ErrorLine 4 (LibraryError (py_str ''boom''))], Inr [r]) \<and>
       line_number r = Some 1 \<and> text' r = py_str ''bueno''"
proof -
  have fs: "sample_fs (py_str ''in.txt'') = Some (TextFile sample_lines None)"
    by (simp add: sample_fs_def)
  have good: "analyze_text sample_analyzer (failing_scorer (py_str ''malo'')) []
      (strip (py_str ''bueno'' @ [10])) =
      Inr \<lparr> text' = py_str ''bueno'',
        polarity = py_round (adjust_polarity_with_keywords sample_analyzer (py_str ''bueno'') 0) 3,
        subjectivity = py_round 0 3,
        sentiment = classify_sentiment
          (adjust_polarity_with_keywords sample_analyzer (py_str ''bueno'') 0),
        timestamp = [], line_number = None \<rparr>"
    using analyze_text_stripped
      [of "py_str ''bueno'' @ [10]" sample_analyzer "failing_scorer (py_str ''malo'')" "[]"]
    by (simp add: sample_lines_stripped failing_scorer_def)
  have bad: "analyze_text sample_analyzer (failing_scorer (py_str ''malo'')) []
      (strip (py_str ''malo'')) = Inl (LibraryError (py_str ''boom''))"
    using analyze_text_stripped
      [of "py_str ''malo''" sample_analyzer "failing_scorer (py_str ''malo'')" "[]"]
    by (simp add: sample_lines_stripped failing_scorer_def)
  from analyze_file_continues_after_failed_line
    [where fs = sample_fs and file_path = "py_str ''in.txt''" and lines = sample_lines
       and e = "failing_scorer (py_str ''malo'')" and self = sample_analyzer
       and clock = "\<lambda>n. []",
     OF fs]
  show ?thesis
    unfolding sample_lines_enumerated
    using good bad by (simp add: sample_lines_stripped)
qed

section \<open>The summary\<close>

text \<open>
  C8. \<open>get_analysis_summary\<close> of the empty list is the empty dictionary; no list
  of results makes it raise (the only division is by \<open>len(results)\<close>, after the
  guard), and only the empty list gives the empty dictionary.
\<close>

theorem get_analysis_summary_empty:
  "get_analysis_summary [] = Inr None \<and>
   (\<forall>results. \<exists>s. get_analysis_summary results = Inr s) \<and>
   (\<forall>results. get_analysis_summary results = Inr None \<longleftrightarrow> results = [])"
  by (auto simp: get_analysis_summary_def py_truediv_def bind_exn_def Let_def)





end
